theory Spec2Isabelle
  imports Main
begin

section \<open>JavaScript values\<close>

text \<open>
  The document and its columns are JSON values. A property that is absent (JavaScript's
  \<open>undefined\<close>) is \<open>None\<close>; \<open>null\<close> is the value \<open>JNull\<close>. An object is the list of
  its properties (keys pairwise distinct).
\<close>

datatype jv =
    JNull
  | JBool bool
  | JNum int
  | JStr string
  | JArr "jv list"
  | JObj "(string \<times> jv) list"

text \<open>Truthiness: \<open>undefined\<close>, \<open>null\<close>, \<open>false\<close>, \<open>0\<close> and \<open>""\<close> are falsy; every array and
  every object is truthy, the empty ones too.\<close>

fun truthy :: "jv \<Rightarrow> bool" where
  "truthy JNull = False"
| "truthy (JBool b) = b"
| "truthy (JNum n) = (n \<noteq> 0)"
| "truthy (JStr s) = (s \<noteq> [])"
| "truthy (JArr xs) = True"
| "truthy (JObj kvs) = True"

text \<open>\<open>a || d\<close> with a default \<open>d\<close> that is a value.\<close>

fun js_or :: "jv option \<Rightarrow> jv \<Rightarrow> jv" where
  "js_or None d = d"
| "js_or (Some v) d = (if truthy v then v else d)"

text \<open>\<open>o?.k\<close> for the keys read by this program (none of them is a property of an array,
  a string, a number or a boolean).\<close>

fun opt_chain :: "jv option \<Rightarrow> string \<Rightarrow> jv option" where
  "opt_chain None k = None"
| "opt_chain (Some (JObj kvs)) k = map_of kvs k"
| "opt_chain (Some v) k = None"

text \<open>\<open>a === b\<close>. Two arrays or two objects are equal only when they are the same
  reference; a value read from the store is never the same reference as an argument.\<close>

fun strict_eq :: "jv option \<Rightarrow> jv option \<Rightarrow> bool" where
  "strict_eq None None = True"
| "strict_eq (Some JNull) (Some JNull) = True"
| "strict_eq (Some (JBool a)) (Some (JBool b)) = (a = b)"
| "strict_eq (Some (JNum a)) (Some (JNum b)) = (a = b)"
| "strict_eq (Some (JStr a)) (Some (JStr b)) = (a = b)"
| "strict_eq a b = False"

text \<open>\<open>v.length\<close>: a number for an array and for a string (its characters), \<open>undefined\<close>
  otherwise.\<close>

fun js_length :: "jv \<Rightarrow> nat option" where
  "js_length (JArr xs) = Some (length xs)"
| "js_length (JStr s) = Some (length s)"
| "js_length v = None"

section \<open>The document, on the wire and in memory\<close>

text \<open>A row of the table \<open>app_data\<close> (snake case columns).\<close>

record wire_row =
  id_w :: "jv option"
  links_w :: "jv option"
  social_links :: "jv option"
  admin_credentials :: "jv option"
  statistics_w :: "jv option"
  admin_messages :: "jv option"
  setup_page_enabled :: "jv option"

text \<open>The document handed to callers (camel case properties).\<close>

record app_document =
  links :: "jv option"
  socialLinks :: "jv option"
  adminCredentials :: "jv option"
  statistics :: "jv option"
  adminMessages :: "jv option"
  setupPageEnabled :: "jv option"

definition emptySocial :: jv where
  "emptySocial = JObj [(''discord'', JStr []), (''x'', JStr [])]"

text \<open>Lines 111 to 122 of \<open>loadDataFromSupabase\<close>: snake case to camel case.\<close>

definition toInternal :: "wire_row \<Rightarrow> app_document" where
  "toInternal data = \<lparr>
     links = Some (js_or (links_w data) (JArr [])),
     socialLinks = Some (js_or (social_links data) emptySocial),
     adminCredentials = Some (js_or (admin_credentials data) JNull),
     statistics = Some (JObj
       [(''clicks'', js_or (opt_chain (statistics_w data) ''clicks'') (JArr [])),
        (''visits'', js_or (opt_chain (statistics_w data) ''visits'') (JArr [])),
        (''dailyVisits'', js_or (opt_chain (statistics_w data) ''daily_visits'') (JObj []))]),
     adminMessages = Some (js_or (admin_messages data) (JArr [])),
     setupPageEnabled = Some (JBool (setup_page_enabled data \<noteq> Some (JBool False))) \<rparr>"

text \<open>Lines 135 to 147 of \<open>saveDataToSupabase\<close>: camel case to snake case.\<close>

definition toWire :: "app_document \<Rightarrow> wire_row" where
  "toWire data = \<lparr>
     id_w = Some (JNum 1),
     links_w = Some (js_or (links data) (JArr [])),
     social_links = Some (js_or (socialLinks data) emptySocial),
     admin_credentials = Some (js_or (adminCredentials data) JNull),
     statistics_w = Some (JObj
       [(''clicks'', js_or (opt_chain (statistics data) ''clicks'') (JArr [])),
        (''visits'', js_or (opt_chain (statistics data) ''visits'') (JArr [])),
        (''daily_visits'', js_or (opt_chain (statistics data) ''dailyVisits'') (JObj []))]),
     admin_messages = Some (js_or (adminMessages data) (JArr [])),
     setup_page_enabled = Some (JBool (setupPageEnabled data \<noteq> Some (JBool False))) \<rparr>"

text \<open>The two literals of lines 83 to 105.\<close>

definition defaultData :: wire_row where
  "defaultData = \<lparr>
     id_w = Some (JNum 1),
     links_w = Some (JArr []),
     social_links = Some emptySocial,
     admin_credentials = Some JNull,
     statistics_w = Some (JObj
       [(''clicks'', JArr []), (''visits'', JArr []), (''daily_visits'', JObj [])]),
     admin_messages = Some (JArr []),
     setup_page_enabled = Some (JBool True) \<rparr>"

definition defaultDocument :: app_document where
  "defaultDocument = \<lparr>
     links = Some (JArr []),
     socialLinks = Some emptySocial,
     adminCredentials = Some JNull,
     statistics = Some (JObj
       [(''clicks'', JArr []), (''visits'', JArr []), (''dailyVisits'', JObj [])]),
     adminMessages = Some (JArr []),
     setupPageEnabled = Some (JBool True) \<rparr>"

section \<open>The environment: remote store, browser cache, clock, console\<close>

datatype error = ConfigError | SupabaseError | TypeError | CallbackError

datatype http_method = GET | POST | PATCH | PUT | DELETE

record request =
  http_method :: http_method
  table :: string
  body :: "wire_row option"
  filters :: "(string \<times> jv) list"

text \<open>What \<open>localStorage\<close> holds is text; the text of a number and the text of a document
  are kept apart symbolically.\<close>

datatype ls_text = NumText nat | JsonText app_document

record data_cache =
  cache_data :: "app_document option"
  lastLoad :: nat
  lastSuccessfulSave :: nat

datatype log_site =
  LoadError | SaveError | VisitsError | MessagesError | AddMessageError | DeleteMessageError

text \<open>
  Everything the functions read or change. \<open>net_ok k\<close> says whether the \<open>k\<close>-th
  \<open>fetch\<close> of the session answers with a success status (otherwise it rejects or answers
  with an error status); \<open>storage_ok\<close> says whether \<open>localStorage.setItem\<close> accepts a
  write; \<open>clock\<close> is what \<open>Date.now()\<close> returns and \<open>clock_iso\<close> what
  \<open>new Date().toISOString()\<close> returns (the clock stands still during one call of a
  function of the program; between calls the environment sets it). \<open>console\<close> holds the
  calls of \<open>console.error\<close>: where in the program, and with which error.
\<close>

record world =
  SUPABASE_CONFIG :: bool
  isSupabaseInitialized :: bool
  app_data :: "wire_row list"
  net_ok :: "nat \<Rightarrow> bool"
  requests :: "request list"
  DATA_CACHE :: "data_cache option"
  localStorage :: "string \<rightharpoonup> ls_text"
  storage_ok :: "(string \<rightharpoonup> ls_text) \<Rightarrow> string \<Rightarrow> ls_text \<Rightarrow> bool"
  clock :: nat
  clock_iso :: string
  console :: "(log_site \<times> error) list"

definition console_error :: "log_site \<Rightarrow> error \<Rightarrow> world \<Rightarrow> world" where
  "console_error site e w = w\<lparr>console := console w @ [(site, e)]\<rparr>"

subsection \<open>The remote store\<close>

text \<open>
  The store is not part of the program. It is taken as a single table of rows with the
  interface of the gateway: a read returns the rows that match every filter, a create
  appends the row, an update overwrites in every matching row the columns that the body
  carries, a delete removes the matching rows. A filter is an equality on a named column.
\<close>

definition column :: "wire_row \<Rightarrow> string \<Rightarrow> jv option" where
  "column r k =
     (if k = ''id'' then id_w r
      else if k = ''links'' then links_w r
      else if k = ''social_links'' then social_links r
      else if k = ''admin_credentials'' then admin_credentials r
      else if k = ''statistics'' then statistics_w r
      else if k = ''admin_messages'' then admin_messages r
      else if k = ''setup_page_enabled'' then setup_page_enabled r
      else None)"

definition matches :: "(string \<times> jv) list \<Rightarrow> wire_row \<Rightarrow> bool" where
  "matches fs r = list_all (\<lambda>(k, v). column r k = Some v) fs"

definition over :: "jv option \<Rightarrow> jv option \<Rightarrow> jv option" where
  "over new old = (case new of None \<Rightarrow> old | Some v \<Rightarrow> Some v)"

definition patch_row :: "wire_row \<Rightarrow> wire_row \<Rightarrow> wire_row" where
  "patch_row new old = \<lparr>
     id_w = over (id_w new) (id_w old),
     links_w = over (links_w new) (links_w old),
     social_links = over (social_links new) (social_links old),
     admin_credentials = over (admin_credentials new) (admin_credentials old),
     statistics_w = over (statistics_w new) (statistics_w old),
     admin_messages = over (admin_messages new) (admin_messages old),
     setup_page_enabled = over (setup_page_enabled new) (setup_page_enabled old) \<rparr>"

fun server :: "request \<Rightarrow> wire_row list \<Rightarrow> wire_row list option \<times> wire_row list" where
  "server rq rows =
     (case http_method rq of
        GET \<Rightarrow> (Some (filter (matches (filters rq)) rows), rows)
      | POST \<Rightarrow>
          (case body rq of
             None \<Rightarrow> (Some [], rows)
           | Some r \<Rightarrow> (Some [r], rows @ [r]))
      | DELETE \<Rightarrow> (None, filter (\<lambda>r. \<not> matches (filters rq) r) rows)
      | _ \<Rightarrow>
          (case body rq of
             None \<Rightarrow> (Some (filter (matches (filters rq)) rows), rows)
           | Some r \<Rightarrow>
               (Some (map (patch_row r) (filter (matches (filters rq)) rows)),
                map (\<lambda>x. if matches (filters rq) x then patch_row r x else x) rows)))"

section \<open>The program\<close>

subsection \<open>\<open>initSupabase\<close> and \<open>supabaseRequest\<close>\<close>

definition initSupabase :: "world \<Rightarrow> (error + unit) \<times> world" where
  "initSupabase w =
     (if isSupabaseInitialized w then (Inr (), w)
      else if \<not> SUPABASE_CONFIG w then (Inl ConfigError, w)
      else (Inr (), w\<lparr>isSupabaseInitialized := True\<rparr>))"

text \<open>
  The request is logged when \<open>fetch\<close> is called. A request that fails (for the network,
  or for a table other than \<open>app_data\<close>, the only one there is) leaves the table as it
  was. The result is \<open>None\<close> for JavaScript's \<open>null\<close>.
\<close>

definition supabaseRequest ::
  "http_method \<Rightarrow> string \<Rightarrow> wire_row option \<Rightarrow> (string \<times> jv) list \<Rightarrow> world
     \<Rightarrow> (error + wire_row list option) \<times> world" where
  "supabaseRequest m t d fs w =
     (case initSupabase w of
        (Inl e, w1) \<Rightarrow> (Inl e, w1)
      | (Inr u, w1) \<Rightarrow>
          (let k = length (requests w1);
               rq = \<lparr>http_method = m, table = t,
                     body = (if m = POST \<or> m = PATCH \<or> m = PUT then d else None),
                     filters = fs\<rparr>;
               w2 = w1\<lparr>requests := requests w1 @ [rq]\<rparr>
           in if \<not> net_ok w2 k \<or> t \<noteq> ''app_data'' then (Inl SupabaseError, w2)
              else (case server rq (app_data w2) of
                      (resp, rows') \<Rightarrow>
                        (Inr (if m = DELETE then None else resp), w2\<lparr>app_data := rows'\<rparr>))))"

subsection \<open>\<open>loadDataFromSupabase\<close>\<close>

definition loadDataFromSupabase :: "world \<Rightarrow> (error + app_document) \<times> world" where
  "loadDataFromSupabase w =
     (case supabaseRequest GET ''app_data'' None [] w of
        (Inl e, w1) \<Rightarrow> (Inl e, console_error LoadError e w1)
      | (Inr result, w1) \<Rightarrow>
          (case result of
             Some (r # rs) \<Rightarrow> (Inr (toInternal r), w1)
           | _ \<Rightarrow>
              (case supabaseRequest POST ''app_data'' (Some defaultData) [] w1 of
                 (Inl e, w2) \<Rightarrow> (Inl e, console_error LoadError e w2)
               | (Inr created, w2) \<Rightarrow> (Inr defaultDocument, w2))))"

subsection \<open>\<open>saveDataToSupabase\<close>\<close>

definition update_DATA_CACHE :: "app_document \<Rightarrow> world \<Rightarrow> world" where
  "update_DATA_CACHE doc w =
     (case DATA_CACHE w of
        None \<Rightarrow> w
      | Some c \<Rightarrow>
          w\<lparr>DATA_CACHE :=
              Some (c\<lparr>cache_data := Some doc, lastLoad := 0, lastSuccessfulSave := clock w\<rparr>)\<rparr>)"

definition setItem :: "string \<Rightarrow> ls_text \<Rightarrow> world \<Rightarrow> world option" where
  "setItem k v w =
     (if storage_ok w (localStorage w) k v
      then Some (w\<lparr>localStorage := (localStorage w)(k \<mapsto> v)\<rparr>)
      else None)"

text \<open>Lines 166 to 171: the three writes, the first that throws ends the block, and the
  exception is dropped.\<close>

definition update_localStorage :: "app_document \<Rightarrow> world \<Rightarrow> world" where
  "update_localStorage doc w =
     (case setItem ''lastDataSave'' (NumText (clock w)) w of
        None \<Rightarrow> w
      | Some w1 \<Rightarrow>
          (case setItem ''cachedData'' (JsonText doc) w1 of
             None \<Rightarrow> w1
           | Some w2 \<Rightarrow>
               (case setItem ''cachedDataTime'' (NumText (clock w)) w2 of
                  None \<Rightarrow> w2
                | Some w3 \<Rightarrow> w3)))"

definition nonempty :: "wire_row list option \<Rightarrow> bool" where
  "nonempty result = (case result of Some (r # rs) \<Rightarrow> True | _ \<Rightarrow> False)"

definition saveDataToSupabase :: "app_document \<Rightarrow> world \<Rightarrow> (error + bool) \<times> world" where
  "saveDataToSupabase doc w =
     (case initSupabase w of
        (Inl e, w0) \<Rightarrow> (Inl e, console_error SaveError e w0)
      | (Inr u, w0) \<Rightarrow>
          (let supabaseData = toWire doc in
           case supabaseRequest GET ''app_data'' None [(''id'', JNum 1)] w0 of
             (Inl e, w1) \<Rightarrow> (Inl e, console_error SaveError e w1)
           | (Inr existing, w1) \<Rightarrow>
               (case (if nonempty existing
                      then supabaseRequest PATCH ''app_data'' (Some supabaseData)
                             [(''id'', JNum 1)] w1
                      else supabaseRequest POST ''app_data'' (Some supabaseData) [] w1) of
                  (Inl e, w2) \<Rightarrow> (Inl e, console_error SaveError e w2)
                | (Inr written, w2) \<Rightarrow>
                    (Inr True, update_localStorage doc (update_DATA_CACHE doc w2)))))"

subsection \<open>The pollers: \<open>listenToNewVisits\<close> and \<open>listenToAdminMessages\<close>\<close>

text \<open>
  A callback is outside the program: all that matters here is with which arguments it is
  called and whether a call returns (\<open>True\<close>) or throws (\<open>False\<close>). No callback
  (\<open>null\<close>, \<open>undefined\<close>) is \<open>None\<close>.
\<close>

type_synonym callback = "(jv \<Rightarrow> bool) option"

text \<open>\<open>data.statistics?.visits || []\<close> and \<open>data.adminMessages || []\<close>.\<close>

definition visits_of :: "app_document \<Rightarrow> jv" where
  "visits_of doc = js_or (opt_chain (statistics doc) ''visits'') (JArr [])"

definition messages_of :: "app_document \<Rightarrow> jv" where
  "messages_of doc = js_or (adminMessages doc) (JArr [])"

text \<open>\<open>newVisits.forEach(visit => { if (callback) callback(visit); })\<close>: the calls made,
  and whether the loop came to its end; an exception leaves the loop.\<close>

fun forEach :: "callback \<Rightarrow> jv list \<Rightarrow> jv list \<times> bool" where
  "forEach None vs = ([], True)"
| "forEach (Some cb) [] = ([], True)"
| "forEach (Some cb) (v # vs) =
     (if cb v then (case forEach (Some cb) vs of (calls, done) \<Rightarrow> (v # calls, done))
      else ([v], False))"

text \<open>
  The body of the timer function of \<open>listenToNewVisits\<close> (lines 185 to 198) once the
  load has settled with \<open>result\<close>, from the value of \<open>lastVisitCount\<close>: the new value,
  the arguments of the calls of the callback in order, and what goes to the console. A
  string has a length and a \<open>slice\<close> but no \<open>forEach\<close>.
\<close>

definition newVisits_step ::
  "callback \<Rightarrow> nat \<Rightarrow> error + app_document \<Rightarrow> (nat \<times> jv list) \<times> (log_site \<times> error) list"
  where
  "newVisits_step callback lastVisitCount result =
     (case result of
        Inl e \<Rightarrow> ((lastVisitCount, []), [(VisitsError, e)])
      | Inr doc \<Rightarrow>
          (case visits_of doc of
             JArr visits \<Rightarrow>
               (if length visits > lastVisitCount
                then (case forEach callback (drop lastVisitCount visits) of
                        (calls, True) \<Rightarrow> ((length visits, calls), [])
                      | (calls, False) \<Rightarrow>
                          ((lastVisitCount, calls), [(VisitsError, CallbackError)]))
                else ((lastVisitCount, []), []))
           | JStr s \<Rightarrow>
               (if length s > lastVisitCount
                then ((lastVisitCount, []), [(VisitsError, TypeError)])
                else ((lastVisitCount, []), []))
           | _ \<Rightarrow> ((lastVisitCount, []), [])))"

text \<open>One firing of the timer: the load, then the body.\<close>

definition listenToNewVisits_tick ::
  "callback \<Rightarrow> nat \<Rightarrow> world \<Rightarrow> (nat \<times> jv list) \<times> world" where
  "listenToNewVisits_tick callback lastVisitCount w =
     (case loadDataFromSupabase w of
        (result, w1) \<Rightarrow>
          (case newVisits_step callback lastVisitCount result of
             (out, logged) \<Rightarrow> (out, w1\<lparr>console := console w1 @ logged\<rparr>)))"

text \<open>
  The same for \<open>listenToAdminMessages\<close> (lines 207 to 217). \<open>lastMessageCount\<close> is a
  number or, after a value without a length, \<open>undefined\<close> (\<open>None\<close>).
\<close>

definition adminMessages_step ::
  "callback \<Rightarrow> nat option \<Rightarrow> error + app_document
     \<Rightarrow> (nat option \<times> jv list) \<times> (log_site \<times> error) list" where
  "adminMessages_step callback lastMessageCount result =
     (case result of
        Inl e \<Rightarrow> ((lastMessageCount, []), [(MessagesError, e)])
      | Inr doc \<Rightarrow>
          (let messages = messages_of doc in
           if js_length messages \<noteq> lastMessageCount
           then (case callback of
                   None \<Rightarrow> ((js_length messages, []), [])
                 | Some cb \<Rightarrow>
                     (if cb messages then ((js_length messages, [messages]), [])
                      else ((lastMessageCount, [messages]), [(MessagesError, CallbackError)])))
           else ((lastMessageCount, []), [])))"

definition listenToAdminMessages_tick ::
  "callback \<Rightarrow> nat option \<Rightarrow> world \<Rightarrow> (nat option \<times> jv list) \<times> world" where
  "listenToAdminMessages_tick callback lastMessageCount w =
     (case loadDataFromSupabase w of
        (result, w1) \<Rightarrow>
          (case adminMessages_step callback lastMessageCount result of
             (out, logged) \<Rightarrow> (out, w1\<lparr>console := console w1 @ logged\<rparr>)))"

text \<open>
  The timers: the firings one after the other, each on the outcome of its own load, the
  counter kept from one firing to the next; the calls of all firings in order. The counters
  start at 0.
\<close>

fun newVisits_run :: "callback \<Rightarrow> nat \<Rightarrow> (error + app_document) list \<Rightarrow> nat \<times> jv list" where
  "newVisits_run callback n [] = (n, [])"
| "newVisits_run callback n (r # rs) =
     (case newVisits_step callback n r of
        ((n1, calls1), logged) \<Rightarrow>
          (case newVisits_run callback n1 rs of (n2, calls2) \<Rightarrow> (n2, calls1 @ calls2)))"




subsection \<open>\<open>addAdminMessage\<close> and \<open>deleteAdminMessage\<close>\<close>






text \<open>\<open>msg.id\<close>: reading a property of \<open>null\<close> throws (outer \<open>None\<close>); a value that is not
  an object has no such property.\<close>

fun msg_id :: "jv \<Rightarrow> jv option option" where
  "msg_id JNull = None"
| "msg_id (JObj kvs) = Some (map_of kvs ''id'')"
| "msg_id v = Some None"

text \<open>\<open>messages.filter(msg => msg.id !== messageId)\<close>, \<open>None\<close> when the test throws.\<close>

fun filter_messages :: "jv list \<Rightarrow> jv option \<Rightarrow> jv list option" where
  "filter_messages [] messageId = Some []"
| "filter_messages (msg # msgs) messageId =
     (case msg_id msg of
        None \<Rightarrow> None
      | Some i \<Rightarrow>
          (case filter_messages msgs messageId of
             None \<Rightarrow> None
           | Some kept \<Rightarrow> Some (if \<not> strict_eq i messageId then msg # kept else kept)))"

definition deleteAdminMessage :: "jv option \<Rightarrow> world \<Rightarrow> (error + bool) \<times> world" where
  "deleteAdminMessage messageId w =
     (case loadDataFromSupabase w of
        (Inl e, w1) \<Rightarrow> (Inl e, console_error DeleteMessageError e w1)
      | (Inr doc, w1) \<Rightarrow>
          (case messages_of doc of
             JArr ms \<Rightarrow>
               (case filter_messages ms messageId of
                  None \<Rightarrow> (Inl TypeError, console_error DeleteMessageError TypeError w1)
                | Some kept \<Rightarrow>
                    (case saveDataToSupabase (doc\<lparr>adminMessages := Some (JArr kept)\<rparr>) w1 of
                       (Inl e, w2) \<Rightarrow> (Inl e, console_error DeleteMessageError e w2)
                     | (Inr ok, w2) \<Rightarrow> (Inr True, w2)))
           | _ \<Rightarrow> (Inl TypeError, console_error DeleteMessageError TypeError w1)))"

section \<open>Vocabulary of the statements\<close>

text \<open>The client can make requests: it is initialised already, or the configuration is
  there.\<close>

definition ready :: "world \<Rightarrow> bool" where
  "ready w = (isSupabaseInitialized w \<or> SUPABASE_CONFIG w)"


text \<open>The four requests the program issues.\<close>

definition read_all :: request where
  "read_all = \<lparr>http_method = GET, table = ''app_data'', body = None, filters = []\<rparr>"

definition read_by_id :: request where
  "read_by_id =
     \<lparr>http_method = GET, table = ''app_data'', body = None, filters = [(''id'', JNum 1)]\<rparr>"

definition create_row :: "wire_row \<Rightarrow> request" where
  "create_row r = \<lparr>http_method = POST, table = ''app_data'', body = Some r, filters = []\<rparr>"

definition update_by_id :: "wire_row \<Rightarrow> request" where
  "update_by_id r =
     \<lparr>http_method = PATCH, table = ''app_data'', body = Some r, filters = [(''id'', JNum 1)]\<rparr>"

text \<open>A property that is missing or \<open>null\<close>.\<close>

definition absent :: "jv option \<Rightarrow> bool" where
  "absent v = (v = None \<or> v = Some JNull)"

text \<open>Whether \<open>msg.id === messageId\<close> (false where reading \<open>msg.id\<close> throws).\<close>

definition has_id :: "jv option \<Rightarrow> jv \<Rightarrow> bool" where
  "has_id messageId msg =
     (case msg_id msg of None \<Rightarrow> False | Some i \<Rightarrow> strict_eq i messageId)"





subsection \<open>Sample data\<close>

text \<open>A browser with the configuration in place, a network and a storage that work, and
  an empty remote table.\<close>

definition world0 :: world where
  "world0 = \<lparr>
     SUPABASE_CONFIG = True,
     isSupabaseInitialized = False,
     app_data = [],
     net_ok = (\<lambda>k. True),
     requests = [],
     DATA_CACHE = None,
     localStorage = Map.empty,
     storage_ok = (\<lambda>store k v. True),
     clock = 1700000000000,
     clock_iso = ''2023-11-14T22:13:20.000Z'',
     console = [] \<rparr>"

text \<open>A row with nothing but its key.\<close>

definition bare_row :: wire_row where
  "bare_row = \<lparr>id_w = Some (JNum 1), links_w = None, social_links = None,
     admin_credentials = None, statistics_w = None, admin_messages = None,
     setup_page_enabled = None\<rparr>"

text \<open>A row and a document with every field set.\<close>

definition sample_messages :: "jv list" where
  "sample_messages =
     [JObj [(''id'', JStr ''1700000000001''), (''text'', JStr ''first'')],
      JObj [(''id'', JStr ''1700000000002''), (''text'', JStr ''second'')]]"

definition sample_visits :: "jv list" where
  "sample_visits =
     [JObj [(''page'', JStr ''a'')], JObj [(''page'', JStr ''b'')], JObj [(''page'', JStr ''c'')],
      JObj [(''page'', JStr ''d'')], JObj [(''page'', JStr ''e'')]]"

definition sample_row :: wire_row where
  "sample_row = \<lparr>
     id_w = Some (JNum 1),
     links_w = Some (JArr [JObj [(''url'', JStr ''https://example.org'')]]),
     social_links = Some (JObj [(''discord'', JStr ''d''), (''x'', JStr ''x'')]),
     admin_credentials = Some (JObj [(''username'', JStr ''admin'')]),
     statistics_w = Some (JObj
       [(''clicks'', JArr [JObj [(''link'', JNum 0)]]),
        (''visits'', JArr sample_visits),
        (''daily_visits'', JObj [(''2023-11-14'', JNum 5)])]),
     admin_messages = Some (JArr sample_messages),
     setup_page_enabled = Some (JBool False) \<rparr>"


definition sample_document :: app_document where
  "sample_document = toInternal sample_row"

text \<open>The sample document with another list of visits.\<close>

definition document_with_visits :: "jv list \<Rightarrow> app_document" where
  "document_with_visits vs = sample_document\<lparr>statistics := Some (JObj
     [(''clicks'', JArr []), (''visits'', JArr vs), (''dailyVisits'', JObj [])])\<rparr>"




section \<open>Facts about the gateway, load and save\<close>

lemma initSupabase_ready:
  "ready w \<Longrightarrow> initSupabase w = (Inr (), w\<lparr>isSupabaseInitialized := True\<rparr>)"
  by (auto simp: initSupabase_def ready_def)

lemma initSupabase_not_ready: "\<not> ready w \<Longrightarrow> initSupabase w = (Inl ConfigError, w)"
  by (simp add: initSupabase_def ready_def)

lemma supabaseRequest_not_ready:
  "\<not> ready w \<Longrightarrow> supabaseRequest m t d fs w = (Inl ConfigError, w)"
  by (simp add: supabaseRequest_def initSupabase_not_ready)

lemma supabaseRequest_fail:
  "ready w \<Longrightarrow> \<not> net_ok w (length (requests w)) \<Longrightarrow>
   supabaseRequest m t d fs w =
     (Inl SupabaseError,
      w\<lparr>isSupabaseInitialized := True,
        requests := requests w @
          [\<lparr>http_method = m, table = t,
            body = (if m = POST \<or> m = PATCH \<or> m = PUT then d else None), filters = fs\<rparr>]\<rparr>)"
  by (simp add: supabaseRequest_def initSupabase_ready Let_def)

lemma supabaseRequest_ok:
  "ready w \<Longrightarrow> net_ok w (length (requests w)) \<Longrightarrow>
   rq = \<lparr>http_method = m, table = ''app_data'',
            body = (if m = POST \<or> m = PATCH \<or> m = PUT then d else None), filters = fs\<rparr> \<Longrightarrow>
   supabaseRequest m ''app_data'' d fs w =
     (Inr (if m = DELETE then None else fst (server rq (app_data w))),
      w\<lparr>isSupabaseInitialized := True,
        requests := requests w @ [rq],
        app_data := snd (server rq (app_data w))\<rparr>)"
  by (simp add: supabaseRequest_def initSupabase_ready Let_def split: prod.splits)


lemma get_all_ok:
  "ready w \<Longrightarrow> net_ok w (length (requests w)) \<Longrightarrow>
   supabaseRequest GET ''app_data'' None [] w =
     (Inr (Some (app_data w)),
      w\<lparr>isSupabaseInitialized := True, requests := requests w @ [read_all]\<rparr>)"
  by (simp add: supabaseRequest_ok [OF _ _ refl] read_all_def matches_def)

lemma post_ok:
  "ready w \<Longrightarrow> net_ok w (length (requests w)) \<Longrightarrow>
   supabaseRequest POST ''app_data'' (Some r) [] w =
     (Inr (Some [r]),
      w\<lparr>isSupabaseInitialized := True, requests := requests w @ [create_row r],
        app_data := app_data w @ [r]\<rparr>)"
  by (simp add: supabaseRequest_ok [OF _ _ refl] create_row_def)

lemma load_nonempty:
  "ready w \<Longrightarrow> net_ok w (length (requests w)) \<Longrightarrow> app_data w = r # rs \<Longrightarrow>
   loadDataFromSupabase w =
     (Inr (toInternal r),
      w\<lparr>isSupabaseInitialized := True, requests := requests w @ [read_all]\<rparr>)"
  by (simp add: loadDataFromSupabase_def get_all_ok)

lemma load_empty:
  "ready w \<Longrightarrow> net_ok w (length (requests w)) \<Longrightarrow> net_ok w (Suc (length (requests w))) \<Longrightarrow>
   app_data w = [] \<Longrightarrow>
   loadDataFromSupabase w =
     (Inr defaultDocument,
      w\<lparr>isSupabaseInitialized := True,
        requests := requests w @ [read_all, create_row defaultData],
        app_data := [defaultData]\<rparr>)"
  by (simp add: loadDataFromSupabase_def get_all_ok post_ok ready_def)

lemma load_Inr_cases:
  "loadDataFromSupabase w = (Inr doc, w') \<Longrightarrow>
   (app_data w = [] \<and> doc = defaultDocument) \<or> (\<exists>r rs. app_data w = r # rs \<and> doc = toInternal r)"
  apply (cases "ready w")
   apply (cases "net_ok w (length (requests w))")
    apply (cases "app_data w")
  apply (auto simp: loadDataFromSupabase_def get_all_ok supabaseRequest_fail supabaseRequest_not_ready split: prod.splits sum.splits)
  done



lemma matches_id: "matches [(''id'', JNum 1)] = (\<lambda>r. id_w r = Some (JNum 1))"
  by (rule ext) (simp add: matches_def column_def)

lemma get_by_id_ok:
  "ready w \<Longrightarrow> net_ok w (length (requests w)) \<Longrightarrow>
   supabaseRequest GET ''app_data'' None [(''id'', JNum 1)] w =
     (Inr (Some (filter (\<lambda>r. id_w r = Some (JNum 1)) (app_data w))),
      w\<lparr>isSupabaseInitialized := True, requests := requests w @ [read_by_id]\<rparr>)"
  by (simp add: supabaseRequest_ok [OF _ _ refl] read_by_id_def matches_id)

lemma patch_ok:
  "ready w \<Longrightarrow> net_ok w (length (requests w)) \<Longrightarrow>
   supabaseRequest PATCH ''app_data'' (Some r) [(''id'', JNum 1)] w =
     (Inr (Some (map (patch_row r) (filter (\<lambda>x. id_w x = Some (JNum 1)) (app_data w)))),
      w\<lparr>isSupabaseInitialized := True, requests := requests w @ [update_by_id r],
        app_data := map (\<lambda>x. if id_w x = Some (JNum 1) then patch_row r x else x) (app_data w)\<rparr>)"
  by (simp add: supabaseRequest_ok [OF _ _ refl] update_by_id_def matches_id)

lemma patch_row_toWire: "patch_row (toWire doc) old = toWire doc"
  by (simp add: patch_row_def toWire_def over_def)

lemma update_cache_frame:
  "app_data (update_localStorage doc (update_DATA_CACHE doc w)) = app_data w \<and>
   requests (update_localStorage doc (update_DATA_CACHE doc w)) = requests w \<and>
   net_ok (update_localStorage doc (update_DATA_CACHE doc w)) = net_ok w \<and>
   console (update_localStorage doc (update_DATA_CACHE doc w)) = console w \<and>
   clock (update_localStorage doc (update_DATA_CACHE doc w)) = clock w \<and>
   clock_iso (update_localStorage doc (update_DATA_CACHE doc w)) = clock_iso w \<and>
   ready (update_localStorage doc (update_DATA_CACHE doc w)) = ready w"
  by (simp add: update_localStorage_def update_DATA_CACHE_def setItem_def ready_def
      split: option.splits)


text \<open>What a save does when nothing fails: the two requests, and the table afterwards.\<close>

lemma save_ok:
  assumes "ready w" "net_ok w (length (requests w))" "net_ok w (Suc (length (requests w)))"
  shows "saveDataToSupabase doc w =
     (Inr True,
      update_localStorage doc (update_DATA_CACHE doc
        (if filter (\<lambda>r. id_w r = Some (JNum 1)) (app_data w) \<noteq> []
         then w\<lparr>isSupabaseInitialized := True,
                requests := requests w @ [read_by_id, update_by_id (toWire doc)],
                app_data := map (\<lambda>x. if id_w x = Some (JNum 1) then toWire doc else x)
                              (app_data w)\<rparr>
         else w\<lparr>isSupabaseInitialized := True,
                requests := requests w @ [read_by_id, create_row (toWire doc)],
                app_data := app_data w @ [toWire doc]\<rparr>)))"
proof -
  let ?w0 = "w\<lparr>isSupabaseInitialized := True\<rparr>"
  let ?w1 = "w\<lparr>isSupabaseInitialized := True, requests := requests w @ [read_by_id]\<rparr>"
  have r0: "ready ?w0" by (simp add: ready_def)
  have r1: "ready ?w1" by (simp add: ready_def)
  have g: "supabaseRequest GET ''app_data'' None [(''id'', JNum 1)] ?w0 =
      (Inr (Some (filter (\<lambda>r. id_w r = Some (JNum 1)) (app_data w))), ?w1)"
    using assms(2) by (simp add: get_by_id_ok [OF r0])
  have n1: "net_ok ?w1 (length (requests ?w1))" using assms(3) by simp
  show ?thesis
  proof (cases "filter (\<lambda>r. id_w r = Some (JNum 1)) (app_data w)")
    case Nil
    then show ?thesis
      by (simp add: saveDataToSupabase_def Let_def initSupabase_ready [OF assms(1)] g nonempty_def
          post_ok [OF r1 n1])
  next
    case (Cons a as)
    then show ?thesis
      by (simp add: saveDataToSupabase_def Let_def initSupabase_ready [OF assms(1)] g nonempty_def
          patch_ok [OF r1 n1] patch_row_toWire cong: if_cong)
  qed
qed

lemma save_fail_first:
  assumes "ready w" "\<not> net_ok w (length (requests w))"
  shows "saveDataToSupabase doc w =
     (Inl SupabaseError,
      console_error SaveError SupabaseError
        (w\<lparr>isSupabaseInitialized := True, requests := requests w @ [read_by_id]\<rparr>))"
proof -
  have r0: "ready (w\<lparr>isSupabaseInitialized := True\<rparr>)" by (simp add: ready_def)
  show ?thesis using assms(2)
    by (simp add: saveDataToSupabase_def initSupabase_ready [OF assms(1)]
        supabaseRequest_fail [OF r0] read_by_id_def)
qed

lemma save_fail_second:
  assumes "ready w" "net_ok w (length (requests w))" "\<not> net_ok w (Suc (length (requests w)))"
  shows "fst (saveDataToSupabase doc w) = Inl SupabaseError"
proof -
  let ?w0 = "w\<lparr>isSupabaseInitialized := True\<rparr>"
  let ?w1 = "w\<lparr>isSupabaseInitialized := True, requests := requests w @ [read_by_id]\<rparr>"
  have r0: "ready ?w0" by (simp add: ready_def)
  have r1: "ready ?w1" by (simp add: ready_def)
  have g: "supabaseRequest GET ''app_data'' None [(''id'', JNum 1)] ?w0 =
      (Inr (Some (filter (\<lambda>r. id_w r = Some (JNum 1)) (app_data w))), ?w1)"
    using assms(2) by (simp add: get_by_id_ok [OF r0])
  have n1: "\<not> net_ok ?w1 (length (requests ?w1))" using assms(3) by simp
  show ?thesis
    by (simp add: saveDataToSupabase_def Let_def initSupabase_ready [OF assms(1)] g
        supabaseRequest_fail [OF r1 n1])
qed


lemma js_or_filled: "truthy d \<Longrightarrow> \<not> absent (Some (js_or v d))"
  by (cases v) (auto simp: absent_def)

lemma js_or_absent: "absent v \<Longrightarrow> js_or v d = d"
  by (auto simp: absent_def)

lemma toInternal_filled:
  "\<not> absent (links (toInternal r)) \<and> \<not> absent (socialLinks (toInternal r)) \<and>
   \<not> absent (statistics (toInternal r)) \<and>
   \<not> absent (opt_chain (statistics (toInternal r)) ''clicks'') \<and>
   \<not> absent (opt_chain (statistics (toInternal r)) ''visits'') \<and>
   \<not> absent (opt_chain (statistics (toInternal r)) ''dailyVisits'') \<and>
   \<not> absent (adminMessages (toInternal r)) \<and>
   adminCredentials (toInternal r) \<noteq> None \<and>
   setupPageEnabled (toInternal r) = Some (JBool (setup_page_enabled r \<noteq> Some (JBool False)))"
  by (simp add: toInternal_def js_or_filled emptySocial_def) (simp add: absent_def)

lemma defaultDocument_filled:
  "\<not> absent (links defaultDocument) \<and> \<not> absent (socialLinks defaultDocument) \<and>
   \<not> absent (statistics defaultDocument) \<and>
   \<not> absent (opt_chain (statistics defaultDocument) ''clicks'') \<and>
   \<not> absent (opt_chain (statistics defaultDocument) ''visits'') \<and>
   \<not> absent (opt_chain (statistics defaultDocument) ''dailyVisits'') \<and>
   \<not> absent (adminMessages defaultDocument) \<and>
   adminCredentials defaultDocument \<noteq> None \<and>
   setupPageEnabled defaultDocument = Some (JBool True)"
  by (simp add: defaultDocument_def absent_def emptySocial_def)

lemma toInternal_defaults:
  "(absent (links_w r) \<longrightarrow> links (toInternal r) = Some (JArr [])) \<and>
   (absent (social_links r) \<longrightarrow>
      socialLinks (toInternal r) = Some (JObj [(''discord'', JStr []), (''x'', JStr [])])) \<and>
   (absent (admin_credentials r) \<longrightarrow> adminCredentials (toInternal r) = Some JNull) \<and>
   (absent (opt_chain (statistics_w r) ''clicks'') \<longrightarrow>
      opt_chain (statistics (toInternal r)) ''clicks'' = Some (JArr [])) \<and>
   (absent (opt_chain (statistics_w r) ''visits'') \<longrightarrow>
      opt_chain (statistics (toInternal r)) ''visits'' = Some (JArr [])) \<and>
   (absent (opt_chain (statistics_w r) ''daily_visits'') \<longrightarrow>
      opt_chain (statistics (toInternal r)) ''dailyVisits'' = Some (JObj [])) \<and>
   (absent (admin_messages r) \<longrightarrow> adminMessages (toInternal r) = Some (JArr []))"
  by (simp add: toInternal_def js_or_absent emptySocial_def)

section \<open>Facts about the pollers\<close>

lemma forEach_all: "\<forall>v\<in>set vs. cb v \<Longrightarrow> forEach (Some cb) vs = (vs, True)"
  by (induction vs) auto

lemma forEach_throws:
  "\<not> (\<forall>v\<in>set vs. cb v) \<Longrightarrow>
   forEach (Some cb) vs = (takeWhile cb vs @ take 1 (dropWhile cb vs), False)"
proof (induction vs)
  case Nil
  then show ?case by simp
next
  case (Cons v vs)
  then show ?case by (cases "cb v") (auto split: prod.splits)
qed

lemma visits_of_array:
  "opt_chain (statistics doc) ''visits'' = Some (JArr visits) \<Longrightarrow> visits_of doc = JArr visits"
  by (simp add: visits_of_def)

lemma messages_of_array:
  "adminMessages doc = Some (JArr ms) \<Longrightarrow> messages_of doc = JArr ms"
  by (simp add: messages_of_def)

lemma visits_tick_step:
  "loadDataFromSupabase w = (r, w1) \<Longrightarrow>
   listenToNewVisits_tick cb n w =
     (fst (newVisits_step cb n r), w1\<lparr>console := console w1 @ snd (newVisits_step cb n r)\<rparr>)"
  by (simp add: listenToNewVisits_tick_def split: prod.splits)

lemma messages_tick_step:
  "loadDataFromSupabase w = (r, w1) \<Longrightarrow>
   listenToAdminMessages_tick cb n w =
     (fst (adminMessages_step cb n r),
      w1\<lparr>console := console w1 @ snd (adminMessages_step cb n r)\<rparr>)"
  by (simp add: listenToAdminMessages_tick_def split: prod.splits)

lemma newVisits_step_ok:
  assumes "visits_of doc = JArr visits" "n < length visits" "\<forall>v\<in>set (drop n visits). cb v"
  shows "newVisits_step (Some cb) n (Inr doc) = ((length visits, drop n visits), [])"
  using assms by (simp add: newVisits_step_def forEach_all)

lemma newVisits_step_throws:
  assumes "visits_of doc = JArr visits" "n < length visits"
    "\<not> (\<forall>v\<in>set (drop n visits). cb v)"
  shows "newVisits_step (Some cb) n (Inr doc) =
     ((n, takeWhile cb (drop n visits) @ take 1 (dropWhile cb (drop n visits))),
      [(VisitsError, CallbackError)])"
  using assms by (simp add: newVisits_step_def forEach_throws)

lemma sample_visits_of: "opt_chain (statistics sample_document) ''visits'' = Some (JArr sample_visits)"
  by (simp add: sample_document_def sample_row_def toInternal_def)

lemma load_sample:
  "loadDataFromSupabase (world0\<lparr>app_data := [sample_row]\<rparr>) =
     (Inr sample_document,
      world0\<lparr>app_data := [sample_row], isSupabaseInitialized := True, requests := [read_all]\<rparr>)"
proof -
  let ?w = "world0\<lparr>app_data := [sample_row]\<rparr>"
  have "ready ?w" "net_ok ?w (length (requests ?w))" "app_data ?w = sample_row # []"
    by (simp_all add: ready_def world0_def)
  from load_nonempty [OF this] show ?thesis
    by (simp add: sample_document_def world0_def)
qed

lemma sample_messages_of: "adminMessages sample_document = Some (JArr sample_messages)"
  by (simp add: sample_document_def sample_row_def toInternal_def)




lemma newVisits_step_mono: "n \<le> fst (fst (newVisits_step cb n r))"
  by (auto simp: newVisits_step_def split: sum.splits jv.splits prod.splits bool.splits)

lemma newVisits_run_mono: "n \<le> fst (newVisits_run cb n rs)"
proof (induction rs arbitrary: n)
  case Nil
  then show ?case by simp
next
  case (Cons r rs)
  obtain n1 calls1 logged where s: "newVisits_step cb n r = ((n1, calls1), logged)"
    by (metis prod.exhaust)
  have "n \<le> n1" using newVisits_step_mono [of n cb r] s by simp
  moreover have "n1 \<le> fst (newVisits_run cb n1 rs)" by (rule Cons.IH)
  ultimately show ?case using s by (auto split: prod.splits)
qed

lemma newVisits_step_short:
  "visits_of doc = JArr visits \<Longrightarrow> length visits \<le> n \<Longrightarrow>
   newVisits_step cb n (Inr doc) = ((n, []), [])"
  by (simp add: newVisits_step_def)

lemma newVisits_run_short:
  "\<forall>r\<in>set rs. \<forall>doc. r = Inr doc \<longrightarrow> (\<exists>visits. visits_of doc = JArr visits \<and> length visits \<le> n)
   \<Longrightarrow> newVisits_run cb n rs = (n, [])"
proof (induction rs)
  case Nil
  then show ?case by simp
next
  case (Cons r rs)
  have "newVisits_step cb n r = ((n, []), snd (newVisits_step cb n r))"
  proof (cases r)
    case (Inl e)
    then show ?thesis by (simp add: newVisits_step_def)
  next
    case (Inr doc)
    with Cons.prems obtain visits where "visits_of doc = JArr visits" "length visits \<le> n"
      by auto
    then show ?thesis using Inr by (simp add: newVisits_step_short)
  qed
  moreover have "newVisits_run cb n rs = (n, [])" using Cons by simp
  ultimately show ?case by (auto split: prod.splits)
qed

section \<open>Facts about the message log\<close>

lemma supabaseRequest_Inr_requests:
  "supabaseRequest m t d fs w = (Inr r, w') \<Longrightarrow>
   requests w' = requests w @
     [\<lparr>http_method = m, table = t,
       body = (if m = POST \<or> m = PATCH \<or> m = PUT then d else None), filters = fs\<rparr>]"
  by (auto simp: supabaseRequest_def initSupabase_def Let_def split: prod.splits if_splits)


lemma save_Inr_written:
  assumes "saveDataToSupabase doc w = (Inr ok, w')"
  shows "ok = True \<and> requests w' \<noteq> [] \<and> body (last (requests w')) = Some (toWire doc)"
  using assms
  by (auto simp: saveDataToSupabase_def Let_def update_cache_frame
      split: prod.splits sum.splits if_splits
      dest!: supabaseRequest_Inr_requests)

lemma save_Inr_ready:
  assumes "saveDataToSupabase doc w = (Inr ok, w')"
  shows "ready w \<and> net_ok w (length (requests w)) \<and> net_ok w (Suc (length (requests w)))"
proof -
  have "fst (saveDataToSupabase doc w) = Inr ok" using assms by simp
  then show ?thesis
    using save_fail_first [of w doc] save_fail_second [of w doc]
    by (cases "ready w"; cases "net_ok w (length (requests w))";
        cases "net_ok w (Suc (length (requests w)))")
       (auto simp: saveDataToSupabase_def initSupabase_not_ready)
qed

lemma save_Inr_stored:
  assumes "saveDataToSupabase doc w = (Inr ok, w')"
  shows "toWire doc \<in> set (app_data w')"
proof -
  from save_Inr_ready [OF assms] have h: "ready w" "net_ok w (length (requests w))"
    "net_ok w (Suc (length (requests w)))" by simp_all
  have i: "id_w (toWire doc) = Some (JNum 1)" by (simp add: toWire_def)
  show ?thesis
  proof (cases "filter (\<lambda>r. id_w r = Some (JNum 1)) (app_data w) = []")
    case True
    then show ?thesis using assms by (simp add: save_ok [OF h] update_cache_frame) (auto simp: update_cache_frame)
  next
    case False
    then obtain r where "r \<in> set (app_data w)" "id_w r = Some (JNum 1)"
      by (auto simp: filter_empty_conv)
    then have "toWire doc \<in> set (map (\<lambda>x. if id_w x = Some (JNum 1) then toWire doc else x) (app_data w))"
      by force
    then show ?thesis using assms False
      by (simp add: save_ok [OF h]) (auto simp: update_cache_frame)
  qed
qed

lemma toWire_messages:
  "admin_messages (toWire (doc\<lparr>adminMessages := Some (JArr ms)\<rparr>)) = Some (JArr ms)"
  by (simp add: toWire_def)

lemma filter_messages_Some:
  "filter_messages ms messageId = Some kept \<Longrightarrow>
   kept = filter (\<lambda>msg. \<not> has_id messageId msg) ms"
  by (induction ms arbitrary: kept) (auto simp: has_id_def split: option.splits if_splits)

lemma filter_messages_total:
  "JNull \<notin> set ms \<Longrightarrow>
   filter_messages ms messageId = Some (filter (\<lambda>msg. \<not> has_id messageId msg) ms)"
proof (induction ms)
  case Nil
  then show ?case by simp
next
  case (Cons m ms)
  then have "m \<noteq> JNull" by auto
  then obtain i where "msg_id m = Some i" by (cases m) auto
  then show ?case using Cons by (simp add: has_id_def)
qed

lemma delete_Inr:
  assumes "deleteAdminMessage messageId w = (Inr ok, w')"
  shows "ok = True \<and>
    (\<exists>doc w1 ms. loadDataFromSupabase w = (Inr doc, w1) \<and> messages_of doc = JArr ms \<and>
       filter_messages ms messageId \<noteq> None \<and>
       saveDataToSupabase
         (doc\<lparr>adminMessages := Some (JArr (filter (\<lambda>msg. \<not> has_id messageId msg) ms))\<rparr>) w1
         = (Inr True, w'))"
proof -
  obtain r w1 where l: "loadDataFromSupabase w = (r, w1)" by (metis prod.exhaust)
  then obtain doc where r: "r = Inr doc"
    using assms by (cases r) (auto simp: deleteAdminMessage_def)
  obtain ms where m: "messages_of doc = JArr ms"
    using assms l r by (cases "messages_of doc") (auto simp: deleteAdminMessage_def)
  obtain kept where k: "filter_messages ms messageId = Some kept"
    using assms l r m by (cases "filter_messages ms messageId") (auto simp: deleteAdminMessage_def)
  have kept: "kept = filter (\<lambda>msg. \<not> has_id messageId msg) ms"
    by (rule filter_messages_Some [OF k])
  obtain r2 w2 where s: "saveDataToSupabase (doc\<lparr>adminMessages := Some (JArr kept)\<rparr>) w1 = (r2, w2)"
    by (metis prod.exhaust)
  then obtain ok2 where r2: "r2 = Inr ok2"
    using assms l r m k by (cases r2) (auto simp: deleteAdminMessage_def)
  have "ok2 = True" using save_Inr_written s r2 by blast
  moreover have "ok = True" "w' = w2"
    using assms l r m k s r2 by (auto simp: deleteAdminMessage_def)
  ultimately show ?thesis using l r m k s r2 kept by auto
qed

lemma delete_sample:
  "messageId = Some (JStr t) \<Longrightarrow>
   fst (deleteAdminMessage messageId (world0\<lparr>app_data := [sample_row]\<rparr>)) = Inr True"
proof -
  assume i: "messageId = Some (JStr t)"
  let ?w1 = "world0\<lparr>app_data := [sample_row], isSupabaseInitialized := True,
                requests := [read_all]\<rparr>"
  have m: "messages_of sample_document = JArr sample_messages"
    by (simp add: messages_of_array sample_messages_of)
  have f: "filter_messages sample_messages messageId
      = Some (filter (\<lambda>msg. \<not> has_id messageId msg) sample_messages)"
    by (rule filter_messages_total) (simp add: sample_messages_def)
  have h: "ready ?w1" "net_ok ?w1 (length (requests ?w1))" "net_ok ?w1 (Suc (length (requests ?w1)))"
    by (simp_all add: ready_def world0_def)
  show ?thesis
    by (simp add: deleteAdminMessage_def load_sample m f save_ok [OF h])
qed











section \<open>The claims\<close>

subsection \<open>C1: the bound on the message log\<close>




subsection \<open>C2: the round trip of the field mapper\<close>




subsection \<open>C3: the visit poller delivers the new visits\<close>

text \<open>
  C3, as stated: on every firing whose load succeeds with a list of visits longer than
  the last count, the callback is called once per new element, in order, and the count
  becomes the new length.

  This fails when the callback throws: the exception leaves \<open>forEach\<close>, is caught and
  logged by the \<open>catch\<close> of the timer function, and \<open>lastVisitCount\<close> keeps its value.
  With a count of 3, five visits and a callback that throws, the callback is called once,
  not twice, and the count stays 3.
\<close>

theorem newVisits_throwing_callback:
  "fst (loadDataFromSupabase (world0\<lparr>app_data := [sample_row]\<rparr>)) = Inr sample_document \<and>
   opt_chain (statistics sample_document) ''visits'' = Some (JArr sample_visits) \<and>
   length sample_visits = 5 \<and>
   fst (listenToNewVisits_tick (Some (\<lambda>v. False)) 3 (world0\<lparr>app_data := [sample_row]\<rparr>)) =
     (3, [JObj [(''page'', JStr ''d'')]])"
  by (simp add: load_sample visits_tick_step sample_visits_of newVisits_step_def
      visits_of_array [OF sample_visits_of]) (simp add: sample_visits_def)

text \<open>
  C3, amended: on a firing whose load succeeds with a list of visits longer than the last
  count, if the callback returns on each new element, it is called exactly once per
  element beyond the last count, in order, with that element, and the count becomes the
  new length (count 3 and five visits: two calls). If the callback throws on one of them,
  the elements before it and that element have been delivered, the later ones are not,
  the error is logged and the count is unchanged.
\<close>

theorem newVisits_delivers:
  assumes "opt_chain (statistics doc) ''visits'' = Some (JArr visits)"
    and "n < length visits"
  shows "((\<forall>v\<in>set (drop n visits). cb v) \<longrightarrow>
            newVisits_step (Some cb) n (Inr doc) = ((length visits, drop n visits), []) \<and>
            length (drop n visits) = length visits - n \<and>
            (\<forall>w w1. loadDataFromSupabase w = (Inr doc, w1) \<longrightarrow>
               listenToNewVisits_tick (Some cb) n w = ((length visits, drop n visits), w1))) \<and>
         (\<not> (\<forall>v\<in>set (drop n visits). cb v) \<longrightarrow>
            newVisits_step (Some cb) n (Inr doc) =
              ((n, takeWhile cb (drop n visits) @ take 1 (dropWhile cb (drop n visits))),
               [(VisitsError, CallbackError)]))"
  using assms
  by (auto simp: visits_tick_step newVisits_step_ok newVisits_step_throws visits_of_array)

theorem newVisits_delivers_witness:
  "opt_chain (statistics sample_document) ''visits'' = Some (JArr sample_visits) \<and>
   length sample_visits = 5 \<and>
   newVisits_step (Some (\<lambda>v. True)) 3 (Inr sample_document) =
     ((5, [JObj [(''page'', JStr ''d'')], JObj [(''page'', JStr ''e'')]]), []) \<and>
   fst (listenToNewVisits_tick (Some (\<lambda>v. True)) 3 (world0\<lparr>app_data := [sample_row]\<rparr>)) =
     (5, [JObj [(''page'', JStr ''d'')], JObj [(''page'', JStr ''e'')]]) \<and>
   newVisits_step (Some (\<lambda>v. v \<noteq> JObj [(''page'', JStr ''e'')])) 3 (Inr sample_document) =
     ((3, [JObj [(''page'', JStr ''d'')], JObj [(''page'', JStr ''e'')]]),
      [(VisitsError, CallbackError)])"
proof -
  have l: "(3::nat) < length sample_visits" by (simp add: sample_visits_def)
  show ?thesis
    using newVisits_delivers [OF sample_visits_of l, of "\<lambda>v. True"]
      newVisits_delivers [OF sample_visits_of l, of "\<lambda>v. v \<noteq> JObj [(''page'', JStr ''e'')]"]
      load_sample sample_visits_of
    by (simp add: sample_visits_def)
qed

subsection \<open>C4: the error contract of save\<close>



subsection \<open>C5: the first load creates the singleton\<close>



subsection \<open>C6: defaults on load\<close>

text \<open>
  C6, as stated: every field of the document returned by a load is defaulted, never
  \<open>null\<close> or absent.

  This fails for \<open>adminCredentials\<close>, whose default is \<open>null\<close> itself: the document
  loaded from a row without credentials, and the default document of the first load, have
  \<open>adminCredentials = null\<close>.
\<close>

theorem load_null_credentials:
  "fst (loadDataFromSupabase (world0\<lparr>app_data := [bare_row]\<rparr>)) = Inr defaultDocument \<and>
   adminCredentials defaultDocument = Some JNull \<and>
   fst (loadDataFromSupabase world0) = Inr defaultDocument"
proof -
  let ?w = "world0\<lparr>app_data := [bare_row]\<rparr>"
  have r: "ready ?w" and n: "net_ok ?w (length (requests ?w))"
    and d: "app_data ?w = bare_row # []"
    by (simp_all add: ready_def world0_def)
  have t: "toInternal bare_row = defaultDocument"
    by (simp add: toInternal_def bare_row_def defaultDocument_def)
  have l: "fst (loadDataFromSupabase ?w) = Inr defaultDocument"
    by (simp only: load_nonempty [OF r n d] t fst_conv)
  have e: "fst (loadDataFromSupabase world0) = Inr defaultDocument"
    by (subst load_empty) (simp_all add: ready_def world0_def)
  show ?thesis using l e by (simp add: defaultDocument_def)
qed

text \<open>
  C6, amended: every field of the document returned by a load other than
  \<open>adminCredentials\<close> is defaulted, never \<open>null\<close> or absent: \<open>links\<close> missing gives the
  empty sequence, \<open>social_links\<close> missing gives \<open>{discord: "", x: ""}\<close>, the three
  sub-fields of \<open>statistics\<close> missing give empty sequences and an empty mapping,
  \<open>admin_messages\<close> missing gives the empty sequence, and \<open>setupPageEnabled\<close> is true
  unless the stored value is the boolean false. \<open>adminCredentials\<close> is always present, and
  is \<open>null\<close> when the stored value is missing.
\<close>

theorem load_default_fill:
  assumes "loadDataFromSupabase w = (Inr doc, w')"
  shows "\<not> absent (links doc) \<and> \<not> absent (socialLinks doc) \<and> \<not> absent (statistics doc) \<and>
    \<not> absent (opt_chain (statistics doc) ''clicks'') \<and>
    \<not> absent (opt_chain (statistics doc) ''visits'') \<and>
    \<not> absent (opt_chain (statistics doc) ''dailyVisits'') \<and>
    \<not> absent (adminMessages doc) \<and>
    (\<exists>b. setupPageEnabled doc = Some (JBool b)) \<and>
    adminCredentials doc \<noteq> None \<and>
    (app_data w = [] \<longrightarrow> doc = defaultDocument) \<and>
    (\<forall>r rs. app_data w = r # rs \<longrightarrow>
       doc = toInternal r \<and>
       (absent (links_w r) \<longrightarrow> links doc = Some (JArr [])) \<and>
       (absent (social_links r) \<longrightarrow>
          socialLinks doc = Some (JObj [(''discord'', JStr []), (''x'', JStr [])])) \<and>
       (absent (admin_credentials r) \<longrightarrow> adminCredentials doc = Some JNull) \<and>
       (absent (opt_chain (statistics_w r) ''clicks'') \<longrightarrow>
          opt_chain (statistics doc) ''clicks'' = Some (JArr [])) \<and>
       (absent (opt_chain (statistics_w r) ''visits'') \<longrightarrow>
          opt_chain (statistics doc) ''visits'' = Some (JArr [])) \<and>
       (absent (opt_chain (statistics_w r) ''daily_visits'') \<longrightarrow>
          opt_chain (statistics doc) ''dailyVisits'' = Some (JObj [])) \<and>
       (absent (admin_messages r) \<longrightarrow> adminMessages doc = Some (JArr [])) \<and>
       setupPageEnabled doc = Some (JBool (setup_page_enabled r \<noteq> Some (JBool False))))"
proof -
  from load_Inr_cases [OF assms]
  consider "app_data w = []" "doc = defaultDocument"
    | r rs where "app_data w = r # rs" "doc = toInternal r"
    by blast
  then show ?thesis
  proof cases
    case 1
    then show ?thesis using defaultDocument_filled by auto
  next
    case 2
    then show ?thesis using toInternal_filled [of r] toInternal_defaults [of r] by auto
  qed
qed

theorem load_default_fill_witness:
  "fst (loadDataFromSupabase (world0\<lparr>app_data := [bare_row]\<rparr>)) = Inr defaultDocument \<and>
   links defaultDocument = Some (JArr []) \<and>
   socialLinks defaultDocument = Some (JObj [(''discord'', JStr []), (''x'', JStr [])]) \<and>
   opt_chain (statistics defaultDocument) ''clicks'' = Some (JArr []) \<and>
   opt_chain (statistics defaultDocument) ''visits'' = Some (JArr []) \<and>
   opt_chain (statistics defaultDocument) ''dailyVisits'' = Some (JObj []) \<and>
   adminMessages defaultDocument = Some (JArr []) \<and>
   setupPageEnabled defaultDocument = Some (JBool True)"
proof -
  let ?w = "world0\<lparr>app_data := [bare_row]\<rparr>"
  have r: "ready ?w" and n: "net_ok ?w (length (requests ?w))"
    and d: "app_data ?w = bare_row # []"
    by (simp_all add: ready_def world0_def)
  have t: "toInternal bare_row = defaultDocument"
    by (simp add: toInternal_def bare_row_def defaultDocument_def)
  have l: "loadDataFromSupabase ?w =
      (Inr defaultDocument, ?w\<lparr>isSupabaseInitialized := True, requests := requests ?w @ [read_all]\<rparr>)"
    by (simp only: load_nonempty [OF r n d] t)
  have a: "absent (links_w bare_row)" "absent (social_links bare_row)"
    "absent (opt_chain (statistics_w bare_row) ''clicks'')"
    "absent (opt_chain (statistics_w bare_row) ''visits'')"
    "absent (opt_chain (statistics_w bare_row) ''daily_visits'')"
    "absent (admin_messages bare_row)" "setup_page_enabled bare_row \<noteq> Some (JBool False)"
    by (simp_all add: bare_row_def absent_def)
  show ?thesis
    using load_default_fill [OF l] d a by (simp add: l)
qed

subsection \<open>C7: the message poller reports a change of length\<close>

text \<open>
  C7, as stated: on every firing whose load succeeds with a list whose length differs
  from the last count, the callback is called once with the whole list and the count
  becomes the length; with an equal length it is not called.

  This fails when the callback throws: it has been called once with the whole list, but
  the assignment to \<open>lastMessageCount\<close> is skipped, so the count keeps its value.
\<close>

theorem adminMessages_throwing_callback:
  "fst (loadDataFromSupabase (world0\<lparr>app_data := [sample_row]\<rparr>)) = Inr sample_document \<and>
   adminMessages sample_document = Some (JArr sample_messages) \<and>
   length sample_messages = 2 \<and>
   fst (listenToAdminMessages_tick (Some (\<lambda>v. False)) (Some 0)
          (world0\<lparr>app_data := [sample_row]\<rparr>)) = (Some 0, [JArr sample_messages])"
  by (simp add: load_sample messages_tick_step sample_messages_of adminMessages_step_def
      messages_of_array [OF sample_messages_of]) (simp add: sample_messages_def)

text \<open>
  C7, amended: on a firing whose load succeeds with a list of messages, if the length
  differs from the last count (longer or shorter) the callback is called exactly once with
  the whole list; the count then becomes the length if the call returns, and is unchanged
  (with the error logged) if the call throws. If the length equals the count the callback
  is not called and the count is unchanged.
\<close>

theorem adminMessages_notifies:
  assumes "adminMessages doc = Some (JArr ms)"
  shows "(Some (length ms) \<noteq> n \<and> cb (JArr ms) \<longrightarrow>
            adminMessages_step (Some cb) n (Inr doc) = ((Some (length ms), [JArr ms]), []) \<and>
            (\<forall>w w1. loadDataFromSupabase w = (Inr doc, w1) \<longrightarrow>
               listenToAdminMessages_tick (Some cb) n w = ((Some (length ms), [JArr ms]), w1))) \<and>
         (Some (length ms) \<noteq> n \<and> \<not> cb (JArr ms) \<longrightarrow>
            adminMessages_step (Some cb) n (Inr doc) =
              ((n, [JArr ms]), [(MessagesError, CallbackError)])) \<and>
         (Some (length ms) = n \<longrightarrow>
            adminMessages_step (Some cb) n (Inr doc) = ((n, []), []) \<and>
            (\<forall>w w1. loadDataFromSupabase w = (Inr doc, w1) \<longrightarrow>
               listenToAdminMessages_tick (Some cb) n w = ((n, []), w1)))"
  using messages_of_array [OF assms]
  by (auto simp: adminMessages_step_def messages_tick_step)

theorem adminMessages_notifies_witness:
  "adminMessages sample_document = Some (JArr sample_messages) \<and>
   length sample_messages = 2 \<and>
   adminMessages_step (Some (\<lambda>v. True)) (Some 0) (Inr sample_document) =
     ((Some 2, [JArr sample_messages]), []) \<and>
   adminMessages_step (Some (\<lambda>v. True)) (Some 3) (Inr sample_document) =
     ((Some 2, [JArr sample_messages]), []) \<and>
   fst (listenToAdminMessages_tick (Some (\<lambda>v. True)) (Some 3)
          (world0\<lparr>app_data := [sample_row]\<rparr>)) = (Some 2, [JArr sample_messages]) \<and>
   adminMessages_step (Some (\<lambda>v. False)) (Some 3) (Inr sample_document) =
     ((Some 3, [JArr sample_messages]), [(MessagesError, CallbackError)]) \<and>
   adminMessages_step (Some (\<lambda>v. True)) (Some 2) (Inr sample_document) = ((Some 2, []), [])"
  using adminMessages_notifies [OF sample_messages_of, of "Some 0" "\<lambda>v. True"]
    adminMessages_notifies [OF sample_messages_of, of "Some 3" "\<lambda>v. True"]
    adminMessages_notifies [OF sample_messages_of, of "Some 3" "\<lambda>v. False"]
    adminMessages_notifies [OF sample_messages_of, of "Some 2" "\<lambda>v. True"]
    load_sample sample_messages_of
  by (simp add: sample_messages_def)

subsection \<open>C8: a failed load is skipped by both pollers\<close>



subsection \<open>C9: deleting a message by id\<close>

text \<open>
  C9: a call of \<open>deleteAdminMessage\<close> that completes returns \<open>true\<close>, and the list it
  saves back (the \<open>admin_messages\<close> of the row of its last request, which is in the table
  afterwards) is the loaded list without the messages whose \<open>id\<close> is the given id, the
  others in their order; when no message has that id the saved list is the loaded list.
\<close>

theorem delete_removes_by_id:
  assumes "deleteAdminMessage messageId w = (Inr ok, w')"
  shows "ok = True \<and>
    (\<exists>doc ms kept.
       fst (loadDataFromSupabase w) = Inr doc \<and>
       messages_of doc = JArr ms \<and>
       kept = filter (\<lambda>msg. \<not> has_id messageId msg) ms \<and>
       body (last (requests w')) = Some (toWire (doc\<lparr>adminMessages := Some (JArr kept)\<rparr>)) \<and>
       admin_messages (toWire (doc\<lparr>adminMessages := Some (JArr kept)\<rparr>)) = Some (JArr kept) \<and>
       toWire (doc\<lparr>adminMessages := Some (JArr kept)\<rparr>) \<in> set (app_data w') \<and>
       ((\<forall>msg\<in>set ms. \<not> has_id messageId msg) \<longrightarrow> kept = ms))"
proof -
  from delete_Inr [OF assms] obtain doc w1 ms where
    l: "loadDataFromSupabase w = (Inr doc, w1)" and m: "messages_of doc = JArr ms" and
    s: "saveDataToSupabase
         (doc\<lparr>adminMessages := Some (JArr (filter (\<lambda>msg. \<not> has_id messageId msg) ms))\<rparr>) w1
         = (Inr True, w')" and ok: "ok = True"
    by blast
  let ?kept = "filter (\<lambda>msg. \<not> has_id messageId msg) ms"
  have "body (last (requests w')) = Some (toWire (doc\<lparr>adminMessages := Some (JArr ?kept)\<rparr>))"
    using save_Inr_written [OF s] by simp
  moreover have "toWire (doc\<lparr>adminMessages := Some (JArr ?kept)\<rparr>) \<in> set (app_data w')"
    by (rule save_Inr_stored [OF s])
  moreover have "(\<forall>msg\<in>set ms. \<not> has_id messageId msg) \<longrightarrow> ?kept = ms"
    by simp
  ultimately show ?thesis using l m ok by (simp add: toWire_messages)
qed

theorem delete_removes_by_id_witness:
  "fst (deleteAdminMessage (Some (JStr ''1700000000001'')) (world0\<lparr>app_data := [sample_row]\<rparr>))
     = Inr True \<and>
   messages_of sample_document = JArr sample_messages \<and>
   body (last (requests (snd
     (deleteAdminMessage (Some (JStr ''1700000000001'')) (world0\<lparr>app_data := [sample_row]\<rparr>)))))
     = Some (toWire (sample_document\<lparr>adminMessages :=
         Some (JArr [JObj [(''id'', JStr ''1700000000002''), (''text'', JStr ''second'')]])\<rparr>)) \<and>
   fst (deleteAdminMessage (Some (JStr ''42'')) (world0\<lparr>app_data := [sample_row]\<rparr>))
     = Inr True \<and>
   body (last (requests (snd
     (deleteAdminMessage (Some (JStr ''42'')) (world0\<lparr>app_data := [sample_row]\<rparr>)))))
     = Some (toWire (sample_document\<lparr>adminMessages := Some (JArr sample_messages)\<rparr>))"
proof -
  let ?w = "world0\<lparr>app_data := [sample_row]\<rparr>"
  have a: "deleteAdminMessage (Some (JStr ''1700000000001'')) ?w
      = (Inr True, snd (deleteAdminMessage (Some (JStr ''1700000000001'')) ?w))"
    using delete_sample [OF refl, of "''1700000000001''"] by (metis prod.collapse)
  have b: "deleteAdminMessage (Some (JStr ''42'')) ?w
      = (Inr True, snd (deleteAdminMessage (Some (JStr ''42'')) ?w))"
    using delete_sample [OF refl, of "''42''"] by (metis prod.collapse)
  have m: "messages_of sample_document = JArr sample_messages"
    by (simp add: messages_of_array sample_messages_of)
  have f1: "filter (\<lambda>msg. \<not> has_id (Some (JStr ''1700000000001'')) msg) sample_messages
      = [JObj [(''id'', JStr ''1700000000002''), (''text'', JStr ''second'')]]"
    and f2: "filter (\<lambda>msg. \<not> has_id (Some (JStr ''42'')) msg) sample_messages = sample_messages"
    by (simp_all add: sample_messages_def has_id_def)
  show ?thesis
    using delete_removes_by_id [OF a] delete_removes_by_id [OF b] m
      delete_sample [OF refl, of "''1700000000001''"] delete_sample [OF refl, of "''42''"]
    by (simp add: load_sample f1 f2)
qed

subsection \<open>C10: the count of the visit poller never decreases\<close>

text \<open>
  C10: the count of the visit poller never decreases, over one firing and over any run of
  firings; a firing whose load returns a list of visits no longer than the count makes no
  call and leaves the count unchanged, and so does a whole run of such firings (a list
  that shrank and grows back up to the count).
\<close>

theorem newVisits_counter_monotone:
  "n \<le> fst (fst (newVisits_step cb n r)) \<and>
   n \<le> fst (fst (listenToNewVisits_tick cb n w)) \<and>
   n \<le> fst (newVisits_run cb n rs) \<and>
   (\<forall>doc visits. visits_of doc = JArr visits \<and> length visits \<le> n \<longrightarrow>
      newVisits_step cb n (Inr doc) = ((n, []), []) \<and>
      (\<forall>w1. loadDataFromSupabase w = (Inr doc, w1) \<longrightarrow>
         listenToNewVisits_tick cb n w = ((n, []), w1))) \<and>
   ((\<forall>r\<in>set rs. \<forall>doc. r = Inr doc \<longrightarrow>
        (\<exists>visits. visits_of doc = JArr visits \<and> length visits \<le> n)) \<longrightarrow>
      newVisits_run cb n rs = (n, []))"
proof -
  have t: "n \<le> fst (fst (listenToNewVisits_tick cb n w))"
    using newVisits_step_mono [of n cb "fst (loadDataFromSupabase w)"]
    by (auto simp: listenToNewVisits_tick_def split: prod.splits)
  show ?thesis
    using t newVisits_run_short [of rs n cb]
    by (auto simp: newVisits_step_mono newVisits_run_mono newVisits_step_short visits_tick_step)
qed

theorem newVisits_counter_monotone_witness:
  "visits_of (document_with_visits (take 3 sample_visits)) = JArr (take 3 sample_visits) \<and>
   length (take 3 sample_visits) = 3 \<and>
   newVisits_step (Some (\<lambda>v. True)) 5 (Inr (document_with_visits (take 3 sample_visits)))
     = ((5, []), []) \<and>
   newVisits_run (Some (\<lambda>v. True)) 5
     [Inr (document_with_visits (take 3 sample_visits)),
      Inr (document_with_visits (take 4 sample_visits)),
      Inr (document_with_visits sample_visits)] = (5, []) \<and>
   5 \<le> fst (fst (listenToNewVisits_tick (Some (\<lambda>v. True)) 5 (world0\<lparr>app_data := [sample_row]\<rparr>)))"
  using newVisits_counter_monotone
    [of 5 "Some (\<lambda>v. True)" "Inr (document_with_visits (take 3 sample_visits))"
      "world0\<lparr>app_data := [sample_row]\<rparr>"
      "[Inr (document_with_visits (take 3 sample_visits)),
        Inr (document_with_visits (take 4 sample_visits)),
        Inr (document_with_visits sample_visits)]"]
  by (simp add: visits_of_def document_with_visits_def sample_visits_def)

end
